theory Spec2Isabelle
  imports Complex_Main "HOL-Library.Word"
begin

section \<open>Images and the OpenCV operations the stages call\<close>

text \<open>
  A \<open>cv::Mat\<close> of depth 8U: its dimensions, its channel count and its bytes in row-major,
  channel-interleaved order. The default-constructed matrix is empty (0 x 0, type
  \<open>CV_8UC1\<close>). \<open>clone()\<close> is a deep copy, which is the identity on values.
\<close>

type_synonym uchar = "8 word"

record Mat =
  rows :: nat
  cols :: nat
  channels :: nat
  data :: "uchar list"

definition empty_Mat :: Mat where
  "empty_Mat = \<lparr>rows = 0, cols = 0, channels = 1, data = []\<rparr>"

definition same_shape :: "Mat \<Rightarrow> Mat \<Rightarrow> bool" where
  "same_shape a b \<longleftrightarrow>
     rows a = rows b \<and> cols a = cols b \<and> channels a = channels b \<and>
     length (data a) = length (data b)"

text \<open>
  The exceptions of the sources: \<open>cv::Exception\<close>, \<open>std::runtime_error\<close> and
  \<open>cpptoml::parse_exception\<close>, each with its message.
\<close>

datatype exn = CvException string | RuntimeError string | ParseException string

record Size =
  width :: int
  height :: int

record Rect =
  rect_x :: int
  rect_y :: int
  rect_width :: int
  rect_height :: int

text \<open>
  \<open>oat::Position2D\<close> as the detector uses it: \<open>position.x\<close>, \<open>position.y\<close> and
  \<open>position_valid\<close>. The coordinates are the floating-point values
  \<open>x + 0.5 * width\<close> of integers of image size: half-integers, which are exact in
  binary floating point, so the reals stand for them.
\<close>

record Point2D =
  pos_x :: real
  pos_y :: real

record Position2D =
  position :: Point2D
  position_valid :: bool

type_synonym contour = "(int \<times> int) list"

text \<open>
  The OpenCV functions whose result depends on the library's implementation are
  parameters of the model: colour conversion (which raises \<open>cv::Exception\<close> on an
  unsuitable input), the box blur, the contour finder, the image reader and the drawing
  of the tuning overlay.
\<close>

record cv_ops =
  cvtColor_BGR2GRAY :: "Mat \<Rightarrow> exn + Mat"
  blur :: "Size \<Rightarrow> Mat \<Rightarrow> Mat"
  findContours :: "Mat \<Rightarrow> contour list"
  imread :: "string \<Rightarrow> exn + Mat"
  tuning_overlay :: "bool \<Rightarrow> Rect \<Rightarrow> Point2D \<Rightarrow> Mat \<Rightarrow> Mat"

text \<open>
  \<open>cv::absdiff\<close> on two 8U arrays of the same size and type is the per-element
  \<open>|a - b|\<close>; arrays that do not match raise \<open>cv::Exception\<close>.
\<close>

definition absdiff :: "Mat \<Rightarrow> Mat \<Rightarrow> exn + Mat" where
  "absdiff a b =
     (if same_shape a b
      then Inr (a\<lparr>data := map2 (\<lambda>p q. if q \<le> p then p - q else q - p) (data a) (data b)\<rparr>)
      else Inl (CvException ''absdiff: sizes of input arguments do not match''))"

text \<open>
  \<open>cv::threshold(src, dst, thresh, 255, THRESH_BINARY)\<close> on an 8U array:
  \<open>dst = src > thresh ? 255 : 0\<close>, for every integer \<open>thresh\<close>.
\<close>

definition threshold_binary :: "int \<Rightarrow> Mat \<Rightarrow> Mat" where
  "threshold_binary thresh m =
     m\<lparr>data := map (\<lambda>p. if uint p > thresh then 255 else 0) (data m)\<rparr>"

text \<open>
  \<open>cv::boundingRect\<close> of a point set: the smallest upright rectangle that contains
  every point (both borders included); the empty set gives the empty rectangle.
\<close>

definition boundingRect :: "contour \<Rightarrow> Rect" where
  "boundingRect pts =
     (if pts = [] then \<lparr>rect_x = 0, rect_y = 0, rect_width = 0, rect_height = 0\<rparr>
      else let xs = map fst pts; ys = map snd pts;
               x0 = fold min xs (hd xs); x1 = fold max xs (hd xs);
               y0 = fold min ys (hd ys); y1 = fold max ys (hd ys)
           in \<lparr>rect_x = x0, rect_y = y0, rect_width = x1 - x0 + 1, rect_height = y1 - y0 + 1\<rparr>)"

section \<open>DifferenceDetector2D\<close>

record DifferenceDetector2D =
  this_image :: Mat
  last_image :: Mat
  threshold_image :: Mat
  last_image_set :: bool
  object_position :: Position2D
  difference_intensity_threshold :: int
  blur_size :: Size
  blur_on :: bool
  tuning_on :: bool
  tuning_windows_created :: bool

definition set_blur_size :: "int \<Rightarrow> DifferenceDetector2D \<Rightarrow> DifferenceDetector2D" where
  "set_blur_size v s =
     (if v > 0 then s\<lparr>blur_on := True, blur_size := \<lparr>width = v, height = v\<rparr>\<rparr>
      else s\<lparr>blur_on := False\<rparr>)"

text \<open>
  The constructor. Its initialiser list sets \<open>tuning_windows_created\<close>,
  \<open>last_image_set\<close> and \<open>tuning_on\<close>; the matrices and \<open>blur_size\<close> are
  default-constructed; the body calls \<open>set_blur_size(2)\<close>. The header that declares
  \<open>object_position\<close> and \<open>difference_intensity_threshold\<close> is not part of the
  sources, so their initial values are parameters. \<open>blur_on\<close> has no value before the
  body runs; the body overwrites it.
\<close>

definition DifferenceDetector2D_new :: "Position2D \<Rightarrow> int \<Rightarrow> DifferenceDetector2D" where
  "DifferenceDetector2D_new pos0 thresh0 =
     set_blur_size 2
       \<lparr>this_image = empty_Mat, last_image = empty_Mat, threshold_image = empty_Mat,
        last_image_set = False, object_position = pos0,
        difference_intensity_threshold = thresh0,
        blur_size = \<lparr>width = 0, height = 0\<rparr>, blur_on = False,
        tuning_on = False, tuning_windows_created = False\<rparr>"

text \<open>
  \<open>applyThreshold\<close>. A raised exception leaves the object in the state it had at the
  throw, so the error result carries that state.
\<close>

definition applyThreshold ::
  "cv_ops \<Rightarrow> DifferenceDetector2D \<Rightarrow> exn \<times> DifferenceDetector2D + DifferenceDetector2D" where
  "applyThreshold cv s =
     (if last_image_set s then
        (case cvtColor_BGR2GRAY cv (this_image s) of
           Inl e \<Rightarrow> Inl (e, s)
         | Inr g \<Rightarrow>
            let s1 = s\<lparr>this_image := g\<rparr> in
            (case absdiff (this_image s1) (last_image s1) of
               Inl e \<Rightarrow> Inl (e, s1)
             | Inr d \<Rightarrow>
                let s2 = s1\<lparr>threshold_image := d\<rparr>;
                    s3 = s2\<lparr>threshold_image :=
                           threshold_binary (difference_intensity_threshold s2) (threshold_image s2)\<rparr>;
                    s4 = (if blur_on s3
                          then s3\<lparr>threshold_image := blur cv (blur_size s3) (threshold_image s3)\<rparr>
                          else s3);
                    s5 = s4\<lparr>threshold_image :=
                           threshold_binary (difference_intensity_threshold s4) (threshold_image s4)\<rparr>
                in Inr (s5\<lparr>last_image := this_image s5\<rparr>)))
      else
        (let s1 = s\<lparr>threshold_image := this_image s\<rparr> in
         case cvtColor_BGR2GRAY cv (threshold_image s1) of
           Inl e \<Rightarrow> Inl (e, s1)
         | Inr g \<Rightarrow>
            let s2 = s1\<lparr>threshold_image := g\<rparr>;
                s3 = s2\<lparr>last_image := this_image s2\<rparr>
            in (case cvtColor_BGR2GRAY cv (last_image s3) of
                  Inl e \<Rightarrow> Inl (e, s3)
                | Inr g' \<Rightarrow> Inr (s3\<lparr>last_image := g', last_image_set := True\<rparr>))))"

text \<open>
  \<open>siftBlobs\<close>. \<open>contours.at(contours.size() - 1)\<close> is read only when the vector is
  not empty. With tuning on, the threshold image is overdrawn for display.
\<close>

definition siftBlobs :: "cv_ops \<Rightarrow> DifferenceDetector2D \<Rightarrow> DifferenceDetector2D" where
  "siftBlobs cv s =
     (let thresh_cpy = threshold_image s;
          contours = findContours cv thresh_cpy;
          s1 = s\<lparr>object_position := (object_position s)\<lparr>position_valid := (length contours > 0)\<rparr>\<rparr>;
          objectBoundingRectangle =
            (if position_valid (object_position s1)
             then boundingRect (contours ! (length contours - 1))
             else \<lparr>rect_x = 0, rect_y = 0, rect_width = 0, rect_height = 0\<rparr>);
          s2 = (if position_valid (object_position s1)
                then s1\<lparr>object_position := (object_position s1)\<lparr>position :=
                        \<lparr>pos_x = real_of_int (rect_x objectBoundingRectangle)
                                  + 0.5 * real_of_int (rect_width objectBoundingRectangle),
                         pos_y = real_of_int (rect_y objectBoundingRectangle)
                                  + 0.5 * real_of_int (rect_height objectBoundingRectangle)\<rparr>\<rparr>\<rparr>
                else s1)
      in if tuning_on s2
         then s2\<lparr>threshold_image :=
                  tuning_overlay cv (position_valid (object_position s2)) objectBoundingRectangle
                    (position (object_position s2)) (threshold_image s2)\<rparr>
         else s2)"

text \<open>
  \<open>tune\<close> shows the threshold image and keeps the window flag; the sliders of the
  window are moved by a user, who is not part of the model.
\<close>

definition tune :: "DifferenceDetector2D \<Rightarrow> DifferenceDetector2D" where
  "tune s =
     (if tuning_on s then
        (if \<not> tuning_windows_created s then s\<lparr>tuning_windows_created := True\<rparr> else s)
      else if \<not> tuning_on s \<and> tuning_windows_created s then s\<lparr>tuning_windows_created := False\<rparr>
      else s)"

definition detectPosition ::
  "cv_ops \<Rightarrow> Mat \<Rightarrow> DifferenceDetector2D
     \<Rightarrow> exn \<times> DifferenceDetector2D + Position2D \<times> DifferenceDetector2D" where
  "detectPosition cv frame s =
     (case applyThreshold cv (s\<lparr>this_image := frame\<rparr>) of
        Inl err \<Rightarrow> Inl err
      | Inr s1 \<Rightarrow> let s2 = tune (siftBlobs cv s1) in Inr (object_position s2, s2))"

text \<open>
  \<open>configure\<close>. The settings table of the detector holds the typed entries the code
  reads with \<open>get_as<int64_t>\<close> and \<open>get_as<bool>\<close>; an integer entry is a value,
  so \<open>is_value()\<close> holds for every \<open>blur\<close> of the model. The 64-bit entry is
  narrowed to \<open>int\<close> where it is passed to \<open>set_blur_size(int)\<close> and stored in the
  \<open>int\<close> threshold. \<open>parse_file\<close> stands for the file system: the parsed tables of a
  file, or the message of \<open>cpptoml::parse_exception\<close>.
\<close>

record detector_config =
  cfg_blur :: "int option"
  cfg_diff_threshold :: "int option"
  cfg_tune :: "bool option"

definition int_of_int64 :: "int \<Rightarrow> int" where
  "int_of_int64 v = (v + 2 ^ 31) mod 2 ^ 32 - 2 ^ 31"

definition createTuningWindows :: "DifferenceDetector2D \<Rightarrow> DifferenceDetector2D" where
  "createTuningWindows s = s\<lparr>tuning_windows_created := True\<rparr>"

definition configure ::
  "(string \<Rightarrow> string + (string \<rightharpoonup> detector_config)) \<Rightarrow> string \<Rightarrow> string
     \<Rightarrow> DifferenceDetector2D \<Rightarrow> exn \<times> DifferenceDetector2D + DifferenceDetector2D" where
  "configure parse_file config_file config_key s =
     (case parse_file config_file of
        Inl msg \<Rightarrow> Inl (ParseException msg, s)
      | Inr config \<Rightarrow>
         (case config config_key of
            None \<Rightarrow>
              Inl (RuntimeError (''No configuration named '' @ config_key @
                     '' was provided in the configuration file '' @ config_file), s)
          | Some this_config \<Rightarrow>
              let s1 = (case cfg_blur this_config of
                          None \<Rightarrow> s
                        | Some b \<Rightarrow> set_blur_size (int_of_int64 b) s)
              in if cfg_blur this_config \<noteq> None \<and> height (blur_size s1) < 0
                 then Inl (RuntimeError (''blur value in '' @ config_key @ '' in'' @ config_file
                             @ '' must be > 0.''), s1)
                 else
                   let s2 = (case cfg_diff_threshold this_config of
                               None \<Rightarrow> s1
                             | Some t \<Rightarrow> s1\<lparr>difference_intensity_threshold := int_of_int64 t\<rparr>)
                   in if cfg_diff_threshold this_config \<noteq> None
                         \<and> difference_intensity_threshold s2 < 0
                      then Inl (RuntimeError (''diff_threshold value in '' @ config_key @ '' in''
                                  @ config_file @ '' must be > 0.''), s2)
                      else
                        Inr (case cfg_tune this_config of
                               Some True \<Rightarrow> createTuningWindows (s2\<lparr>tuning_on := True\<rparr>)
                             | _ \<Rightarrow> s2)))"

section \<open>The run loop and the end of main\<close>

text \<open>
  \<open>run\<close>: \<open>while (!quit && !source_eof) source_eof = stage->process();\<close>.
  \<open>quit\<close> is set by the signal handler at any moment; \<open>quit k\<close> is the value the loop
  reads at its \<open>k\<close>-th test, the first being test 0. \<open>process\<close>, declared in a header
  that is not part of the sources, is a parameter: it returns the end-of-stream flag and
  the new state of the stage, or raises. The loop may run forever, so the result is
  optional; it counts the calls of \<open>process\<close> it has made.
\<close>

partial_function (option) run ::
  "(nat \<Rightarrow> bool) \<Rightarrow> ('s \<Rightarrow> exn \<times> 's + bool \<times> 's) \<Rightarrow> nat \<Rightarrow> bool \<Rightarrow> 's
     \<Rightarrow> (exn \<times> nat \<times> 's + nat \<times> 's) option" where
  "run quit process n source_eof s =
     (if \<not> quit n \<and> \<not> source_eof then
        (case process s of
           Inl (e, s') \<Rightarrow> Some (Inl (e, Suc n, s'))
         | Inr (eof, s') \<Rightarrow> run quit process (Suc n) eof s')
      else Some (Inr (n, s)))"

text \<open>
  The end of \<open>main\<close> in the position detector: inside one \<open>try\<close>, the optional
  \<open>configure\<close> and then \<open>run\<close>, with \<open>return 0\<close> after the loop; every
  \<open>catch\<close> clause prints the error, and main returns \<open>-1\<close>.
\<close>

definition main_try ::
  "bool \<Rightarrow> ('s \<Rightarrow> exn \<times> 's + 's) \<Rightarrow> (nat \<Rightarrow> bool) \<Rightarrow> ('s \<Rightarrow> exn \<times> 's + bool \<times> 's) \<Rightarrow> 's
     \<Rightarrow> int option" where
  "main_try config_used configure_stage quit process detector =
     (case (if config_used then configure_stage detector else Inr detector) of
        Inl err \<Rightarrow> Some (- 1)
      | Inr d \<Rightarrow>
         (case run quit process 0 False d of
            None \<Rightarrow> None
          | Some (Inl err) \<Rightarrow> Some (- 1)
          | Some (Inr fin) \<Rightarrow> Some 0))"

section \<open>BackgroundSubtractor\<close>

record BackgroundSubtractor =
  background_img :: Mat
  background_set :: bool

record subtractor_config =
  cfg_background :: "string option"

text \<open>
  \<open>frame - background_img\<close> on 8U matrices of the same size and type is the
  saturating per-element difference; matrices that do not match raise
  \<open>cv::Exception\<close>.
\<close>

definition mat_sub :: "Mat \<Rightarrow> Mat \<Rightarrow> exn + Mat" where
  "mat_sub a b =
     (if same_shape a b
      then Inr (a\<lparr>data := map2 (\<lambda>p q. if q \<le> p then p - q else 0) (data a) (data b)\<rparr>)
      else Inl (CvException ''subtract: sizes of input arguments do not match''))"

datatype 'a outcome = Returns 'a | Exits int

text \<open>
  \<open>BackgroundSubtractor::configure\<close>. A parse error is printed and leaves the table
  empty; a missing key ends the process with \<open>EXIT_FAILURE\<close>; the path is the empty
  string when the table has no \<open>background\<close> entry.
\<close>

definition BackgroundSubtractor_configure ::
  "cv_ops \<Rightarrow> (string \<Rightarrow> string + (string \<rightharpoonup> subtractor_config)) \<Rightarrow> string \<Rightarrow> string
     \<Rightarrow> BackgroundSubtractor \<Rightarrow> BackgroundSubtractor outcome" where
  "BackgroundSubtractor_configure cv parse_file config_file config_key s =
     (let config = (case parse_file config_file of Inl msg \<Rightarrow> Map.empty | Inr c \<Rightarrow> c) in
      case config config_key of
        None \<Rightarrow> Exits 1
      | Some this_config \<Rightarrow>
          let background_img_path =
                (case cfg_background this_config of None \<Rightarrow> [] | Some p \<Rightarrow> p)
          in (case imread cv background_img_path of
                Inr img \<Rightarrow> Returns (s\<lparr>background_img := img, background_set := True\<rparr>)
              | Inl (CvException m) \<Rightarrow> Returns (s\<lparr>background_set := False\<rparr>)
              | Inl e \<Rightarrow> Returns s))"

definition setBackgroundImage :: "Mat \<Rightarrow> BackgroundSubtractor \<Rightarrow> BackgroundSubtractor" where
  "setBackgroundImage frame s = s\<lparr>background_img := frame, background_set := True\<rparr>"

text \<open>
  \<open>filter\<close> returns the frame (which it has overwritten with the difference when the
  subtraction succeeded) and the new state; only \<open>cv::Exception\<close> is caught.
\<close>

definition BackgroundSubtractor_filter ::
  "Mat \<Rightarrow> BackgroundSubtractor \<Rightarrow> exn + Mat \<times> BackgroundSubtractor" where
  "BackgroundSubtractor_filter frame s =
     (if background_set s then
        (case mat_sub frame (background_img s) of
           Inr d \<Rightarrow> Inr (d, s)
         | Inl (CvException m) \<Rightarrow> Inr (frame, s)
         | Inl e \<Rightarrow> Inl e)
      else Inr (frame, setBackgroundImage frame s))"

section \<open>An instance of the OpenCV operations\<close>

text \<open>
  To evaluate the stages on concrete frames, one instance of the library operations:
  the 8-bit fixed-point luminance of \<open>COLOR_BGR2GRAY\<close> (3 or 4 channels, otherwise
  \<open>cv::Exception\<close>); the normalised box filter with the anchor at the kernel centre,
  \<open>BORDER_REFLECT_101\<close> and the result rounded and saturated (the detector calls it
  with a positive kernel size only; for any other size the instance returns its input); a
  contour finder that is
  exact on masks whose non-zero pixels fill one upright rectangle (it returns the corners
  of the box around the non-zero pixels, and no contour for an all-zero mask); a reader
  for which no file can be read, so that \<open>imread\<close> returns the empty matrix as OpenCV
  does for a file it cannot load; and an overlay that draws nothing.
\<close>

definition bgr2gray_pixel :: "uchar \<Rightarrow> uchar \<Rightarrow> uchar \<Rightarrow> uchar" where
  "bgr2gray_pixel b g r =
     word_of_int ((uint b * 1868 + uint g * 9617 + uint r * 4899 + 8192) div 16384)"

definition byte_at :: "uchar list \<Rightarrow> nat \<Rightarrow> uchar" where
  "byte_at xs i = (if i < length xs then xs ! i else 0)"

definition cvtColor_ref :: "Mat \<Rightarrow> exn + Mat" where
  "cvtColor_ref m =
     (if channels m = 3 \<or> channels m = 4
      then Inr \<lparr>rows = rows m, cols = cols m, channels = 1,
                data = map (\<lambda>i. bgr2gray_pixel (byte_at (data m) (i * channels m))
                                   (byte_at (data m) (i * channels m + 1))
                                   (byte_at (data m) (i * channels m + 2)))
                         [0..<rows m * cols m]\<rparr>
      else Inl (CvException ''cvtColor: invalid number of channels in input image''))"

definition reflect101 :: "int \<Rightarrow> nat \<Rightarrow> nat" where
  "reflect101 p len =
     (if len \<le> 1 then 0
      else let period = 2 * (int len - 1); q = p mod period
           in nat (if q < int len then q else period - q))"

definition pixel :: "Mat \<Rightarrow> nat \<Rightarrow> nat \<Rightarrow> nat \<Rightarrow> int" where
  "pixel m r c ch = uint (byte_at (data m) ((r * cols m + c) * channels m + ch))"

definition box_sum :: "Size \<Rightarrow> Mat \<Rightarrow> nat \<Rightarrow> nat \<Rightarrow> nat \<Rightarrow> int" where
  "box_sum k m r c ch =
     (\<Sum>dy\<leftarrow>[0..<nat (height k)]. \<Sum>dx\<leftarrow>[0..<nat (width k)].
        pixel m (reflect101 (int r + int dy - height k div 2) (rows m))
                (reflect101 (int c + int dx - width k div 2) (cols m)) ch)"

definition blur_ref :: "Size \<Rightarrow> Mat \<Rightarrow> Mat" where
  "blur_ref k m =
     (if width k \<le> 0 \<or> height k \<le> 0 then m
      else m\<lparr>data := map (\<lambda>i. let ch = i mod channels m;
                                   c = (i div channels m) mod cols m;
                                   r = i div (channels m * cols m);
                                   n = width k * height k
                               in word_of_int (min 255 ((2 * box_sum k m r c ch + n) div (2 * n))))
                        [0..<length (data m)]\<rparr>)"

definition findContours_ref :: "Mat \<Rightarrow> contour list" where
  "findContours_ref m =
     (let nz = filter (\<lambda>i. data m ! i \<noteq> 0) [0..<length (data m)];
          pts = map (\<lambda>i. (int (i mod cols m), int (i div cols m))) nz
      in if pts = [] then []
         else let b = boundingRect pts;
                  x0 = rect_x b; y0 = rect_y b;
                  x1 = rect_x b + rect_width b - 1; y1 = rect_y b + rect_height b - 1
              in [remdups [(x0, y0), (x0, y1), (x1, y1), (x1, y0)]])"

definition opencv_ref :: cv_ops where
  "opencv_ref =
     \<lparr>cvtColor_BGR2GRAY = cvtColor_ref, blur = blur_ref, findContours = findContours_ref,
      imread = (\<lambda>path. Inr empty_Mat), tuning_overlay = (\<lambda>valid r p m. m)\<rparr>"

section \<open>Properties the statements below speak about\<close>


text \<open>
  The foreground of a mask is the set of its non-zero pixels. One image is below another
  when they have the same shape and every pixel is at most the other's; a blur is
  monotone when it keeps that order, as every normalised box filter does.
\<close>

definition foreground :: "Mat \<Rightarrow> nat set" where
  "foreground m = {i. i < length (data m) \<and> data m ! i \<noteq> 0}"

definition mat_le :: "Mat \<Rightarrow> Mat \<Rightarrow> bool" where
  "mat_le a b \<longleftrightarrow>
     rows a = rows b \<and> cols a = cols b \<and> channels a = channels b \<and>
     list_all2 (\<le>) (data a) (data b)"

definition blur_monotone :: "cv_ops \<Rightarrow> bool" where
  "blur_monotone cv \<longleftrightarrow> (\<forall>k a b. mat_le a b \<longrightarrow> mat_le (blur cv k a) (blur cv k b))"

text \<open>
  An image operation of the steady-state detection fails: the grayscale conversion of the
  frame, or the difference against the history frame.
\<close>

definition image_operation_fails ::
  "cv_ops \<Rightarrow> Mat \<Rightarrow> DifferenceDetector2D \<Rightarrow> exn \<Rightarrow> bool" where
  "image_operation_fails cv frame s e \<longleftrightarrow>
     (case cvtColor_BGR2GRAY cv frame of
        Inl e' \<Rightarrow> e' = e
      | Inr g \<Rightarrow> absdiff g (last_image s) = Inl e)"

text \<open>
  The first \<open>k\<close> calls of \<open>process\<close>: the flag and the state after them, or nothing
  when one of them raised. The loop goes on at its \<open>i\<close>-th test when it reads no
  \<open>quit\<close> there and the calls so far have not reported the end of the stream.
\<close>

fun iterate_process ::
  "('s \<Rightarrow> exn \<times> 's + bool \<times> 's) \<Rightarrow> nat \<Rightarrow> 's \<Rightarrow> (bool \<times> 's) option" where
  "iterate_process process 0 s = Some (False, s)"
| "iterate_process process (Suc k) s =
     (case iterate_process process k s of
        None \<Rightarrow> None
      | Some (eof, s') \<Rightarrow> (case process s' of Inl err \<Rightarrow> None | Inr r \<Rightarrow> Some r))"

definition loop_continues ::
  "(nat \<Rightarrow> bool) \<Rightarrow> ('s \<Rightarrow> exn \<times> 's + bool \<times> 's) \<Rightarrow> 's \<Rightarrow> nat \<Rightarrow> bool" where
  "loop_continues quit process s i \<longleftrightarrow>
     \<not> quit i \<and> (case iterate_process process i s of Some (eof, s') \<Rightarrow> \<not> eof | None \<Rightarrow> False)"

definition reported_valid ::
  "exn \<times> DifferenceDetector2D + Position2D \<times> DifferenceDetector2D \<Rightarrow> bool option" where
  "reported_valid r = (case r of Inl err \<Rightarrow> None | Inr (p, s) \<Rightarrow> Some (position_valid p))"

definition state_at_end :: "exn \<times> 's + 's \<Rightarrow> 's" where
  "state_at_end r = (case r of Inl (e, s) \<Rightarrow> s | Inr s \<Rightarrow> s)"

section \<open>Concrete frames, configurations and stages\<close>

definition pos0 :: Position2D where
  "pos0 = \<lparr>position = \<lparr>pos_x = 0, pos_y = 0\<rparr>, position_valid = False\<rparr>"

definition white_frame :: Mat where
  "white_frame = \<lparr>rows = 2, cols = 2, channels = 3,
     data = [255,255,255, 255,255,255,
             255,255,255, 255,255,255]\<rparr>"

definition white_gray :: Mat where
  "white_gray = \<lparr>rows = 2, cols = 2, channels = 1, data = [255,255, 255,255]\<rparr>"

definition black_frame :: Mat where
  "black_frame = \<lparr>rows = 3, cols = 3, channels = 3,
     data = [0,0,0, 0,0,0, 0,0,0,
             0,0,0, 0,0,0, 0,0,0,
             0,0,0, 0,0,0, 0,0,0]\<rparr>"

definition black_gray :: Mat where
  "black_gray = \<lparr>rows = 3, cols = 3, channels = 1, data = [0,0,0, 0,0,0, 0,0,0]\<rparr>"

text \<open>
  A frame with a single white pixel in the top right corner and a block of two white
  pixels at the bottom left, and the mask it leaves against the black frame.
\<close>

definition blobs_frame :: Mat where
  "blobs_frame = \<lparr>rows = 3, cols = 3, channels = 3,
     data = [0,0,0, 0,0,0, 255,255,255,
             0,0,0, 0,0,0, 0,0,0,
             255,255,255, 255,255,255, 0,0,0]\<rparr>"

definition blobs_mask :: Mat where
  "blobs_mask = \<lparr>rows = 3, cols = 3, channels = 1, data = [0,0,255, 0,0,0, 255,255,0]\<rparr>"

text \<open>
  For the mask with two blobs, a finder that reports both contours, the larger one first.
\<close>

definition two_contour_ops :: cv_ops where
  "two_contour_ops = opencv_ref\<lparr>findContours :=
      (\<lambda>m. if m = blobs_mask then [[(0, 2), (1, 2)], [(2, 0)]] else findContours_ref m)\<rparr>"

text \<open>
  A detector with blur off and threshold 20 that has seen the black frame, and the same
  detector after the frame with the two blobs.
\<close>

definition after_black :: DifferenceDetector2D where
  "after_black = (set_blur_size 0 (DifferenceDetector2D_new pos0 20))
      \<lparr>this_image := black_frame, threshold_image := black_gray,
       last_image := black_gray, last_image_set := True\<rparr>"

definition after_blobs :: DifferenceDetector2D where
  "after_blobs = after_black\<lparr>this_image := blobs_mask, threshold_image := blobs_mask,
       last_image := blobs_mask\<rparr>"

definition config_without_blur :: "string \<Rightarrow> string + (string \<rightharpoonup> detector_config)" where
  "config_without_blur file =
     Inr [''diff'' \<mapsto> \<lparr>cfg_blur = None, cfg_diff_threshold = Some 20, cfg_tune = None\<rparr>]"

definition config_negative_blur :: "string \<Rightarrow> string + (string \<rightharpoonup> detector_config)" where
  "config_negative_blur file =
     Inr [''diff'' \<mapsto> \<lparr>cfg_blur = Some (- 1), cfg_diff_threshold = None, cfg_tune = None\<rparr>]"

text \<open>
  A \<open>process\<close> with no handler of its own on a source that delivers one frame again
  and again, and a source that reports the end of the stream on its fifth acquisition.
\<close>

definition pass_frame ::
  "cv_ops \<Rightarrow> Mat \<Rightarrow> DifferenceDetector2D
     \<Rightarrow> exn \<times> DifferenceDetector2D + bool \<times> DifferenceDetector2D" where
  "pass_frame cv frame d =
     (case detectPosition cv frame d of Inl err \<Rightarrow> Inl err | Inr (p, d') \<Rightarrow> Inr (False, d'))"

definition five_frames :: "nat \<Rightarrow> exn \<times> nat + bool \<times> nat" where
  "five_frames acquired = Inr (Suc acquired = 5, Suc acquired)"

definition never_quit :: "nat \<Rightarrow> bool" where
  "never_quit k = False"

text \<open>
  The header of \<open>BackgroundSubtractor\<close> is not part of the sources; the specification
  has the background initially unset.
\<close>

definition new_subtractor :: BackgroundSubtractor where
  "new_subtractor = \<lparr>background_img = empty_Mat, background_set = False\<rparr>"

definition config_missing_background ::
  "string \<Rightarrow> string + (string \<rightharpoonup> subtractor_config)" where
  "config_missing_background file = Inr [''bg'' \<mapsto> \<lparr>cfg_background = Some ''missing.png''\<rparr>]"

definition background_frame :: Mat where
  "background_frame = \<lparr>rows = 1, cols = 2, channels = 3, data = [100,100,100, 200,200,200]\<rparr>"

definition next_frame :: Mat where
  "next_frame = \<lparr>rows = 1, cols = 2, channels = 3, data = [150,50,100, 255,0,200]\<rparr>"

definition lit_subtractor :: BackgroundSubtractor where
  "lit_subtractor = \<lparr>background_img = background_frame, background_set = True\<rparr>"

text \<open>
  A frame whose pixels rise from 0 to 240, its grayscale image, and the masks it leaves
  against the black frame with a 2 x 2 blur at the thresholds 20 and 100.
\<close>

definition ramp_frame :: Mat where
  "ramp_frame = \<lparr>rows = 3, cols = 3, channels = 3,
     data = [0,0,0, 30,30,30, 60,60,60,
             90,90,90, 120,120,120, 150,150,150,
             180,180,180, 210,210,210, 240,240,240]\<rparr>"

definition ramp_gray :: Mat where
  "ramp_gray = \<lparr>rows = 3, cols = 3, channels = 1,
     data = [0,30,60, 90,120,150, 180,210,240]\<rparr>"

definition ramp_mask_20 :: Mat where
  "ramp_mask_20 = \<lparr>rows = 3, cols = 3, channels = 1,
     data = [255,255,255, 255,255,255, 255,255,255]\<rparr>"

definition ramp_mask_100 :: Mat where
  "ramp_mask_100 = \<lparr>rows = 3, cols = 3, channels = 1,
     data = [0,0,255, 0,0,255, 255,255,255]\<rparr>"

definition after_ramp :: "int \<Rightarrow> Mat \<Rightarrow> DifferenceDetector2D" where
  "after_ramp T m = after_black\<lparr>blur_on := True, difference_intensity_threshold := T,
       this_image := ramp_gray, threshold_image := m, last_image := ramp_gray\<rparr>"

section \<open>Facts about the operations\<close>

lemma tune_keeps [simp]:
  "object_position (tune s) = object_position s"
  "last_image (tune s) = last_image s"
  "last_image_set (tune s) = last_image_set s"
  "threshold_image (tune s) = threshold_image s"
  by (simp_all add: tune_def)

lemma siftBlobs_keeps [simp]:
  "last_image (siftBlobs cv s) = last_image s"
  "last_image_set (siftBlobs cv s) = last_image_set s"
  by (simp_all add: siftBlobs_def Let_def)

lemma siftBlobs_valid:
  "position_valid (object_position (siftBlobs cv s)) = (findContours cv (threshold_image s) \<noteq> [])"
  by (simp add: siftBlobs_def Let_def)

lemma siftBlobs_position:
  assumes "findContours cv (threshold_image s) \<noteq> []"
  shows "position (object_position (siftBlobs cv s)) =
     \<lparr>pos_x = real_of_int (rect_x (boundingRect (last (findContours cv (threshold_image s)))))
             + real_of_int (rect_width (boundingRect (last (findContours cv (threshold_image s))))) / 2,
      pos_y = real_of_int (rect_y (boundingRect (last (findContours cv (threshold_image s)))))
             + real_of_int (rect_height (boundingRect (last (findContours cv (threshold_image s))))) / 2\<rparr>"
  using assms by (simp add: siftBlobs_def Let_def last_conv_nth)

lemma applyThreshold_first:
  assumes "\<not> last_image_set s" "cvtColor_BGR2GRAY cv (this_image s) = Inr g"
  shows "applyThreshold cv s =
     Inr (s\<lparr>threshold_image := g, last_image := g, last_image_set := True\<rparr>)"
  using assms by (simp add: applyThreshold_def Let_def)

lemma applyThreshold_history:
  assumes "last_image_set s" "cvtColor_BGR2GRAY cv (this_image s) = Inr g"
    "absdiff g (last_image s) = Inr d"
  shows "applyThreshold cv s =
    Inr (s\<lparr>this_image := g,
           threshold_image :=
             threshold_binary (difference_intensity_threshold s)
               (if blur_on s
                then blur cv (blur_size s) (threshold_binary (difference_intensity_threshold s) d)
                else threshold_binary (difference_intensity_threshold s) d),
           last_image := g\<rparr>)"
  using assms by (simp add: applyThreshold_def Let_def)




lemma mat_le_refl: "mat_le a a"
  by (simp add: mat_le_def list_all2_conv_all_nth)

lemma threshold_pixel_mono:
  assumes "(p::uchar) \<le> q" "T1 \<le> T2"
  shows "(if uint p > T2 then 255 else 0 :: uchar) \<le> (if uint q > T1 then 255 else 0)"
proof -
  have "uint p \<le> uint q" using assms(1) by (simp add: word_le_def)
  with assms(2) show ?thesis by auto
qed

lemma threshold_binary_mono:
  assumes "mat_le a b" "T1 \<le> T2"
  shows "mat_le (threshold_binary T2 a) (threshold_binary T1 b)"
  using assms
  by (auto simp: mat_le_def threshold_binary_def list_all2_conv_all_nth threshold_pixel_mono)

lemma foreground_mono: "mat_le a b \<Longrightarrow> foreground a \<subseteq> foreground b"
  by (auto simp: mat_le_def foreground_def list_all2_conv_all_nth)

subsection \<open>The box filter of the instance is monotone\<close>

lemma byte_at_le:
  assumes "list_all2 (\<le>) xs ys"
  shows "byte_at xs i \<le> byte_at ys i"
  using assms by (auto simp: byte_at_def list_all2_conv_all_nth)

lemma pixel_le: "mat_le a b \<Longrightarrow> pixel a r c ch \<le> pixel b r c ch"
  by (simp add: pixel_def mat_le_def byte_at_le
        word_less_eq_iff_unsigned [where ?'a = int, symmetric])

lemma pixel_nonneg: "0 \<le> pixel a r c ch"
  by (simp add: pixel_def)

lemma box_sum_le: "mat_le a b \<Longrightarrow> box_sum k a r c ch \<le> box_sum k b r c ch"
  unfolding box_sum_def
  by (intro sum_list_mono) (simp add: pixel_le mat_le_def)

lemma box_sum_nonneg: "0 \<le> box_sum k a r c ch"
  unfolding box_sum_def by (auto intro!: sum_list_nonneg simp: pixel_nonneg)

lemma word_of_int_byte_mono:
  assumes "0 \<le> x" "x \<le> y" "y \<le> 255"
  shows "(word_of_int x :: uchar) \<le> word_of_int y"
proof -
  have "uint (word_of_int x :: uchar) = x" "uint (word_of_int y :: uchar) = y"
    using assms by (simp_all add: uint_word_of_int take_bit_eq_mod)
  then show ?thesis using assms by (simp add: word_le_def)
qed

lemma blur_ref_monotone: "mat_le a b \<Longrightarrow> mat_le (blur_ref k a) (blur_ref k b)"
proof (cases "width k \<le> 0 \<or> height k \<le> 0")
  case True
  then show "mat_le a b \<Longrightarrow> ?thesis" by (simp add: blur_ref_def)
next
  case False
  assume le: "mat_le a b"
  from False have n: "0 < width k * height k" by (simp add: zero_less_mult_iff)
  have len: "length (data a) = length (data b)"
    using le by (auto simp: mat_le_def dest: list_all2_lengthD)
  have px: "(word_of_int (min 255 ((2 * box_sum k a r c ch + width k * height k)
                div (2 * (width k * height k)))) :: uchar)
      \<le> word_of_int (min 255 ((2 * box_sum k b r c ch + width k * height k)
                div (2 * (width k * height k))))" for r c ch
  proof (rule word_of_int_byte_mono)
    show "0 \<le> min 255 ((2 * box_sum k a r c ch + width k * height k)
                div (2 * (width k * height k)))"
      using n box_sum_nonneg [of k a r c ch] by (simp add: pos_imp_zdiv_nonneg_iff)
    show "min 255 ((2 * box_sum k a r c ch + width k * height k) div (2 * (width k * height k)))
        \<le> min 255 ((2 * box_sum k b r c ch + width k * height k) div (2 * (width k * height k)))"
      using n box_sum_le [OF le, of k r c ch] by (intro min.mono order_refl zdiv_mono1) simp_all
    show "min 255 ((2 * box_sum k b r c ch + width k * height k)
                div (2 * (width k * height k))) \<le> 255"
      by simp
  qed
  show ?thesis
    using le False len by (simp add: blur_ref_def mat_le_def Let_def list_all2_conv_all_nth px)
qed

lemma opencv_ref_blur_monotone: "blur_monotone opencv_ref"
  by (simp add: blur_monotone_def opencv_ref_def blur_ref_monotone)

subsection \<open>The run loop\<close>

lemma run_stops: "quit n \<or> eof \<Longrightarrow> run quit process n eof s = Some (Inr (n, s))"
  by (subst run.simps) auto

lemma run_from:
  assumes "\<forall>i<n. loop_continues quit process s i"
    and "iterate_process process n s = Some (eof, sn)" and "quit n \<or> eof"
    and "k \<le> n" and "iterate_process process k s = Some (e, sk)"
  shows "run quit process k e sk = Some (Inr (n, sn))"
  using assms(4,5)
proof (induction "n - k" arbitrary: k e sk)
  case 0
  then have "k = n" by simp
  with 0 assms(2,3) show ?case by (simp add: run_stops)
next
  case (Suc d)
  then have kn: "k < n" by simp
  with assms(1) have c: "loop_continues quit process s k" by simp
  with Suc.prems have nq: "\<not> quit k" "\<not> e" by (simp_all add: loop_continues_def)
  from kn have le: "Suc k \<le> n" by simp
  have "loop_continues quit process s (Suc k) \<or> Suc k = n"
    using assms(1) kn by (cases "Suc k < n") auto
  then obtain e' sk' where it: "iterate_process process (Suc k) s = Some (e', sk')"
    using assms(2) by (auto simp: loop_continues_def split: option.splits)
  with Suc.prems have p: "process sk = Inr (e', sk')"
    by (auto split: sum.splits)
  have "run quit process (Suc k) e' sk' = Some (Inr (n, sn))"
    using Suc.hyps(1) [of "Suc k" e' sk'] Suc.hyps(2) le it by simp
  with nq p show ?case by (subst run.simps) simp
qed

lemma run_raises_from:
  assumes "\<forall>i\<le>n. loop_continues quit process s i"
    and "iterate_process process n s = Some (en, sn)" and "process sn = Inl (err, s')"
    and "k \<le> n" and "iterate_process process k s = Some (e, sk)"
  shows "run quit process k e sk = Some (Inl (err, Suc n, s'))"
  using assms(4,5)
proof (induction "n - k" arbitrary: k e sk)
  case 0
  then have k: "k = n" by simp
  with assms(1) have "loop_continues quit process s k" by simp
  with 0 k assms(2) have nq: "\<not> quit k" "\<not> e" "sk = sn" by (simp_all add: loop_continues_def)
  with assms(3) k show ?case by (subst run.simps) simp
next
  case (Suc d)
  then have kn: "k < n" by simp
  with assms(1) have c: "loop_continues quit process s k" by simp
  with Suc.prems have nq: "\<not> quit k" "\<not> e" by (simp_all add: loop_continues_def)
  from kn have le: "Suc k \<le> n" by simp
  with assms(1) have "loop_continues quit process s (Suc k)" by simp
  then obtain e' sk' where it: "iterate_process process (Suc k) s = Some (e', sk')"
    by (auto simp: loop_continues_def split: option.splits)
  with Suc.prems have p: "process sk = Inr (e', sk')"
    by (auto split: sum.splits)
  have "run quit process (Suc k) e' sk' = Some (Inl (err, Suc n, s'))"
    using Suc.hyps(1) [of "Suc k" e' sk'] Suc.hyps(2) le it by simp
  with nq p show ?case by (subst run.simps) simp
qed

subsection \<open>The instance on the concrete frames\<close>

lemma white_frame_gray: "cvtColor_BGR2GRAY opencv_ref white_frame = Inr white_gray"
  by code_simp

lemma white_gray_contours: "findContours opencv_ref white_gray = [[(0, 0), (0, 1), (1, 1), (1, 0)]]"
  by code_simp

lemma blobs_applyThreshold:
  "applyThreshold two_contour_ops (after_black\<lparr>this_image := blobs_frame\<rparr>) = Inr after_blobs"
  by code_simp

lemma blobs_contours:
  "findContours two_contour_ops (threshold_image after_blobs) = [[(0, 2), (1, 2)], [(2, 0)]]"
  by code_simp

section \<open>The first call of the detector\<close>

text \<open>
  C1, as stated, fails: the first call runs the contour search on the grayscale frame
  itself, so a frame that is not black is reported as a valid position. On the all-white
  2 x 2 frame a newly constructed detector reports \<open>valid = true\<close>.
\<close>

theorem first_call_reports_valid:
  "reported_valid (detectPosition opencv_ref white_frame (DifferenceDetector2D_new pos0 0))
     = Some True"
  by code_simp

text \<open>
  C1, amended. For every frame that converts to grayscale, the first call of
  \<open>detectPosition\<close> stores the grayscale frame as the history frame and returns a
  position whose \<open>valid\<close> flag says whether the contour finder found a contour in that
  grayscale frame: \<open>valid = false\<close> exactly when it found none.
\<close>

theorem first_call_stores_history:
  assumes "\<not> last_image_set s" and "cvtColor_BGR2GRAY cv frame = Inr g"
  shows "\<exists>p s'. detectPosition cv frame s = Inr (p, s') \<and> last_image s' = g \<and> last_image_set s'
           \<and> position_valid p = (findContours cv g \<noteq> [])"
  using assms by (simp add: detectPosition_def applyThreshold_first Let_def siftBlobs_valid)

theorem first_call_stores_history_witness:
  "\<not> last_image_set (DifferenceDetector2D_new pos0 0)
   \<and> cvtColor_BGR2GRAY opencv_ref white_frame = Inr white_gray
   \<and> (\<exists>p s'. detectPosition opencv_ref white_frame (DifferenceDetector2D_new pos0 0) = Inr (p, s')
         \<and> last_image s' = white_gray \<and> last_image_set s' \<and> position_valid p)"
proof -
  have h1: "\<not> last_image_set (DifferenceDetector2D_new pos0 0)"
    by (simp add: DifferenceDetector2D_new_def set_blur_size_def)
  show ?thesis
    using h1 white_frame_gray first_call_stores_history [OF h1 white_frame_gray]
    by (simp add: white_gray_contours)
qed

section \<open>Configuration of the detector\<close>

text \<open>
  C2 asks \<open>configure\<close> to raise for a negative \<open>blur\<close>. The code calls
  \<open>set_blur_size\<close>, which for a value that is not positive only turns blur off, and then
  tests the stored \<open>blur_size.height\<close>, which is still the 2 of the constructor: with
  \<open>blur = -1\<close> and no other entry \<open>configure\<close> returns, blur off.
\<close>

theorem configure_accepts_negative_blur:
  "configure config_negative_blur ''oat.toml'' ''diff'' (DifferenceDetector2D_new pos0 0)
     = Inr ((DifferenceDetector2D_new pos0 0)\<lparr>blur_on := False\<rparr>)"
  by (simp add: configure_def config_negative_blur_def DifferenceDetector2D_new_def
        set_blur_size_def int_of_int64_def)

section \<open>Failure of an image operation\<close>

text \<open>
  C3, as stated, fails: \<open>detectPosition\<close> has no handler. When the frame changes size,
  the difference against the 3 x 3 history frame raises, and the exception leaves
  \<open>detectPosition\<close>.
\<close>

theorem detectPosition_raises_on_size_change:
  "detectPosition opencv_ref white_frame after_black
     = Inl (CvException ''absdiff: sizes of input arguments do not match'',
            after_black\<lparr>this_image := white_gray\<rparr>)"
  by code_simp

text \<open>
  C3, amended. When the grayscale conversion or the difference fails in a detection
  after the first, \<open>detectPosition\<close> raises that exception, and at that moment the
  position output and the history frame are what they were before the call. When an
  exception leaves \<open>process\<close> in some iteration, \<open>run\<close> ends with it and
  \<open>main\<close> returns \<open>-1\<close>: the handlers of \<open>main\<close> are outside the loop.
\<close>

theorem image_failure_propagates:
  "(last_image_set s \<and> image_operation_fails cv frame s e
      \<longrightarrow> (\<exists>s'. detectPosition cv frame s = Inl (e, s')
             \<and> last_image s' = last_image s \<and> object_position s' = object_position s))
   \<and> ((if config_used then configure_stage d0 else Inr d0) = Inr d
        \<and> (\<forall>i\<le>n. loop_continues quit process d i)
        \<and> iterate_process process n d = Some (en, dn) \<and> process dn = Inl (err, d')
      \<longrightarrow> main_try config_used configure_stage quit process d0 = Some (- 1))"
proof (intro conjI impI)
  assume "last_image_set s \<and> image_operation_fails cv frame s e"
  then show "\<exists>s'. detectPosition cv frame s = Inl (e, s')
      \<and> last_image s' = last_image s \<and> object_position s' = object_position s"
    by (auto simp: detectPosition_def applyThreshold_def image_operation_fails_def
          split: sum.splits)
next
  assume a: "(if config_used then configure_stage d0 else Inr d0) = Inr d
        \<and> (\<forall>i\<le>n. loop_continues quit process d i)
        \<and> iterate_process process n d = Some (en, dn) \<and> process dn = Inl (err, d')"
  then have "run quit process 0 False d = Some (Inl (err, Suc n, d'))"
    using run_raises_from [of n quit process d en dn err d' 0 False d] by simp
  with a show "main_try config_used configure_stage quit process d0 = Some (- 1)"
    by (simp add: main_try_def)
qed

theorem image_failure_propagates_witness:
  "last_image_set after_black
   \<and> image_operation_fails opencv_ref white_frame after_black
        (CvException ''absdiff: sizes of input arguments do not match'')
   \<and> (\<exists>s'. detectPosition opencv_ref white_frame after_black
              = Inl (CvException ''absdiff: sizes of input arguments do not match'', s')
         \<and> last_image s' = black_gray \<and> object_position s' = pos0)
   \<and> loop_continues never_quit (pass_frame opencv_ref white_frame) after_black 0
   \<and> pass_frame opencv_ref white_frame after_black
        = Inl (CvException ''absdiff: sizes of input arguments do not match'',
               after_black\<lparr>this_image := white_gray\<rparr>)
   \<and> main_try False Inr never_quit (pass_frame opencv_ref white_frame) after_black = Some (- 1)"
proof -
  have h1: "last_image_set after_black" by code_simp
  have h2: "image_operation_fails opencv_ref white_frame after_black
        (CvException ''absdiff: sizes of input arguments do not match'')" by code_simp
  have h3: "\<forall>i\<le>0. loop_continues never_quit (pass_frame opencv_ref white_frame) after_black i"
    by (simp add: loop_continues_def never_quit_def)
  have h4: "pass_frame opencv_ref white_frame after_black
        = Inl (CvException ''absdiff: sizes of input arguments do not match'',
               after_black\<lparr>this_image := white_gray\<rparr>)" by code_simp
  have h5: "last_image after_black = black_gray" "object_position after_black = pos0"
    by code_simp+
  show ?thesis
    using h1 h2 h3 h4 h5
      image_failure_propagates
        [of after_black opencv_ref white_frame
            "CvException ''absdiff: sizes of input arguments do not match''"
            False Inr after_black after_black 0 never_quit
            "pass_frame opencv_ref white_frame" False after_black
            "CvException ''absdiff: sizes of input arguments do not match''"
            "after_black\<lparr>this_image := white_gray\<rparr>"]
    by simp
qed

section \<open>BackgroundSubtractor\<close>

text \<open>
  C4 asks that a background file that cannot be loaded leaves the background unset. The
  code clears \<open>background_set\<close> only in a handler for \<open>cv::Exception\<close>, but
  \<open>cv::imread\<close> reports a file it cannot load by returning the empty matrix: with the
  path \<open>missing.png\<close> \<open>configure\<close> installs the empty matrix as the background, and
  \<open>filter\<close> then hands every frame back unchanged and never takes a frame as the
  background.
\<close>

theorem configure_installs_empty_background:
  "BackgroundSubtractor_configure opencv_ref config_missing_background ''oat.toml'' ''bg''
       new_subtractor
     = Returns \<lparr>background_img = empty_Mat, background_set = True\<rparr>
   \<and> BackgroundSubtractor_filter white_frame \<lparr>background_img = empty_Mat, background_set = True\<rparr>
     = Inr (white_frame, \<lparr>background_img = empty_Mat, background_set = True\<rparr>)"
  by code_simp

text \<open>
  C5, as stated, fails on a later frame whose size is not the background's: the
  subtraction raises, \<open>filter\<close> catches the exception and returns the frame as it
  came. With the 1 x 2 background stored, the white 2 x 2 frame comes back unchanged.
\<close>

theorem filter_returns_mismatched_frame:
  "BackgroundSubtractor_filter background_frame new_subtractor
     = Inr (background_frame, lit_subtractor)
   \<and> mat_sub white_frame (background_img lit_subtractor)
     = Inl (CvException ''subtract: sizes of input arguments do not match'')
   \<and> BackgroundSubtractor_filter white_frame lit_subtractor = Inr (white_frame, lit_subtractor)"
  by code_simp

text \<open>
  C5, amended. \<open>filter\<close> returns the first frame it receives unchanged and stores it as
  the background. On a later call with the background set and a frame of the size and
  type of the background, the output is the per-pixel difference clipped at zero, the
  background is kept, and a frame equal to the background gives an all-zero result. On a
  later call with a frame of another size or type the frame is returned unchanged and
  the background is kept.
\<close>

theorem filter_first_then_saturating_difference:
  "(\<not> background_set s
      \<longrightarrow> BackgroundSubtractor_filter frame s
            = Inr (frame, s\<lparr>background_img := frame, background_set := True\<rparr>))
   \<and> (background_set s \<and> same_shape frame (background_img s)
      \<longrightarrow> (\<exists>d. BackgroundSubtractor_filter frame s = Inr (d, s) \<and> same_shape d frame
             \<and> (\<forall>i<length (data frame).
                   uint (data d ! i)
                     = max 0 (uint (data frame ! i) - uint (data (background_img s) ! i)))))
   \<and> (background_set s \<and> frame = background_img s
      \<longrightarrow> (\<exists>d. BackgroundSubtractor_filter frame s = Inr (d, s) \<and> same_shape d frame
             \<and> (\<forall>p\<in>set (data d). p = 0)))
   \<and> (background_set s \<and> \<not> same_shape frame (background_img s)
      \<longrightarrow> BackgroundSubtractor_filter frame s = Inr (frame, s))"
proof (intro conjI impI)
  assume "\<not> background_set s"
  then show "BackgroundSubtractor_filter frame s
      = Inr (frame, s\<lparr>background_img := frame, background_set := True\<rparr>)"
    by (simp add: BackgroundSubtractor_filter_def setBackgroundImage_def)
next
  assume a: "background_set s \<and> same_shape frame (background_img s)"
  let ?d = "frame\<lparr>data := map2 (\<lambda>p q. if q \<le> p then p - q else 0)
                               (data frame) (data (background_img s))\<rparr>"
  have len: "length (data frame) = length (data (background_img s))"
    using a by (simp add: same_shape_def)
  have "BackgroundSubtractor_filter frame s = Inr (?d, s)"
    using a by (simp add: BackgroundSubtractor_filter_def mat_sub_def)
  moreover have "same_shape ?d frame"
    using len by (simp add: same_shape_def)
  moreover have "\<forall>i<length (data frame).
      uint (data ?d ! i) = max 0 (uint (data frame ! i) - uint (data (background_img s) ! i))"
    using len by (auto simp: word_le_def uint_sub_if' max_def)
  ultimately show "\<exists>d. BackgroundSubtractor_filter frame s = Inr (d, s) \<and> same_shape d frame
      \<and> (\<forall>i<length (data frame).
            uint (data d ! i) = max 0 (uint (data frame ! i) - uint (data (background_img s) ! i)))"
    by blast
next
  assume a: "background_set s \<and> frame = background_img s"
  let ?d = "frame\<lparr>data := map2 (\<lambda>p q. if q \<le> p then p - q else 0) (data frame) (data frame)\<rparr>"
  have "BackgroundSubtractor_filter frame s = Inr (?d, s)"
    using a by (simp add: BackgroundSubtractor_filter_def mat_sub_def same_shape_def)
  moreover have "same_shape ?d frame"
    by (simp add: same_shape_def)
  moreover have "\<forall>p\<in>set (data ?d). p = 0"
    by (auto simp: set_zip)
  ultimately show "\<exists>d. BackgroundSubtractor_filter frame s = Inr (d, s) \<and> same_shape d frame
      \<and> (\<forall>p\<in>set (data d). p = 0)"
    by blast
next
  assume "background_set s \<and> \<not> same_shape frame (background_img s)"
  then show "BackgroundSubtractor_filter frame s = Inr (frame, s)"
    by (simp add: BackgroundSubtractor_filter_def mat_sub_def)
qed

theorem filter_first_then_saturating_difference_witness:
  "\<not> background_set new_subtractor
   \<and> BackgroundSubtractor_filter background_frame new_subtractor
       = Inr (background_frame, lit_subtractor)
   \<and> background_set lit_subtractor \<and> same_shape next_frame (background_img lit_subtractor)
   \<and> BackgroundSubtractor_filter next_frame lit_subtractor
       = Inr (\<lparr>rows = 1, cols = 2, channels = 3, data = [50,0,0, 55,0,0]\<rparr>, lit_subtractor)
   \<and> background_frame = background_img lit_subtractor
   \<and> BackgroundSubtractor_filter background_frame lit_subtractor
       = Inr (\<lparr>rows = 1, cols = 2, channels = 3, data = [0,0,0, 0,0,0]\<rparr>, lit_subtractor)
   \<and> \<not> same_shape white_frame (background_img lit_subtractor)
   \<and> BackgroundSubtractor_filter white_frame lit_subtractor = Inr (white_frame, lit_subtractor)"
proof -
  have e: "BackgroundSubtractor_filter next_frame lit_subtractor
       = Inr (\<lparr>rows = 1, cols = 2, channels = 3, data = [50,0,0, 55,0,0]\<rparr>, lit_subtractor)"
    "BackgroundSubtractor_filter background_frame lit_subtractor
       = Inr (\<lparr>rows = 1, cols = 2, channels = 3, data = [0,0,0, 0,0,0]\<rparr>, lit_subtractor)"
    by code_simp+
  have h: "\<not> background_set new_subtractor" "background_set lit_subtractor"
    "same_shape next_frame (background_img lit_subtractor)"
    "background_frame = background_img lit_subtractor"
    "\<not> same_shape white_frame (background_img lit_subtractor)"
    "new_subtractor\<lparr>background_img := background_frame, background_set := True\<rparr> = lit_subtractor"
    by code_simp+
  show ?thesis
    using e h filter_first_then_saturating_difference [of new_subtractor background_frame]
      filter_first_then_saturating_difference [of lit_subtractor next_frame]
      filter_first_then_saturating_difference [of lit_subtractor background_frame]
      filter_first_then_saturating_difference [of lit_subtractor white_frame]
    by simp
qed

section \<open>The detection steps\<close>



section \<open>The reported position\<close>

text \<open>
  C7. When the contour finder returns at least one contour for the thresholded mask, the
  detector reports \<open>valid = true\<close> and the centre \<open>(x + width / 2, y + height / 2)\<close> of
  the bounding rectangle of the last contour of the list; when it returns none, the
  detector reports \<open>valid = false\<close>. In the witness the last contour is the single pixel,
  not the larger blob.
\<close>

theorem position_is_centre_of_last_contour:
  assumes "applyThreshold cv (s\<lparr>this_image := frame\<rparr>) = Inr s1"
    and "findContours cv (threshold_image s1) = cs"
  shows "\<exists>p s'. detectPosition cv frame s = Inr (p, s')
     \<and> (cs \<noteq> [] \<longrightarrow> position_valid p
          \<and> pos_x (position p) = real_of_int (rect_x (boundingRect (last cs)))
                                  + real_of_int (rect_width (boundingRect (last cs))) / 2
          \<and> pos_y (position p) = real_of_int (rect_y (boundingRect (last cs)))
                                  + real_of_int (rect_height (boundingRect (last cs))) / 2)
     \<and> (cs = [] \<longrightarrow> \<not> position_valid p)"
  using assms siftBlobs_position [of cv s1]
  by (auto simp: detectPosition_def Let_def siftBlobs_valid)

theorem position_is_centre_of_last_contour_witness:
  "applyThreshold two_contour_ops (after_black\<lparr>this_image := blobs_frame\<rparr>) = Inr after_blobs
   \<and> findContours two_contour_ops (threshold_image after_blobs) = [[(0, 2), (1, 2)], [(2, 0)]]
   \<and> (\<exists>p s'. detectPosition two_contour_ops blobs_frame after_black = Inr (p, s')
         \<and> position_valid p \<and> pos_x (position p) = 5 / 2 \<and> pos_y (position p) = 1 / 2)"
  using blobs_applyThreshold blobs_contours
    position_is_centre_of_last_contour [OF blobs_applyThreshold blobs_contours]
  by (simp add: boundingRect_def)

section \<open>The threshold and the foreground\<close>

text \<open>
  C8. For one state of the detector and one frame (so one pair of consecutive frames and
  one blur setting), and a blur that is monotone, a larger threshold gives a foreground
  that is contained in the foreground of the smaller threshold.
\<close>

theorem foreground_antitone_in_threshold:
  assumes mono: "blur_monotone cv" and le: "T1 \<le> T2"
    and r1: "applyThreshold cv (s\<lparr>difference_intensity_threshold := T1, this_image := frame\<rparr>)
               = Inr s1"
    and r2: "applyThreshold cv (s\<lparr>difference_intensity_threshold := T2, this_image := frame\<rparr>)
               = Inr s2"
  shows "foreground (threshold_image s2) \<subseteq> foreground (threshold_image s1)"
proof (cases "last_image_set s")
  case False
  with r1 r2 have "threshold_image s2 = threshold_image s1"
    by (auto simp: applyThreshold_def Let_def split: sum.splits)
  then show ?thesis by simp
next
  case True
  from r1 True obtain g where g: "cvtColor_BGR2GRAY cv frame = Inr g"
    by (auto simp: applyThreshold_def split: sum.splits)
  from r1 True g obtain d where d: "absdiff g (last_image s) = Inr d"
    by (auto simp: applyThreshold_def Let_def split: sum.splits)
  let ?m = "\<lambda>T. threshold_binary T
               (if blur_on s then blur cv (blur_size s) (threshold_binary T d)
                else threshold_binary T d)"
  have m1: "threshold_image s1 = ?m T1"
    using applyThreshold_history
            [of "s\<lparr>difference_intensity_threshold := T1, this_image := frame\<rparr>" cv g d]
          True g d r1 by auto
  have m2: "threshold_image s2 = ?m T2"
    using applyThreshold_history
            [of "s\<lparr>difference_intensity_threshold := T2, this_image := frame\<rparr>" cv g d]
          True g d r2 by auto
  have fg: "mat_le (threshold_binary T2 d) (threshold_binary T1 d)"
    using le by (rule threshold_binary_mono [OF mat_le_refl])
  have "mat_le (?m T2) (?m T1)"
  proof (cases "blur_on s")
    case True
    from mono fg have "mat_le (blur cv (blur_size s) (threshold_binary T2 d))
                              (blur cv (blur_size s) (threshold_binary T1 d))"
      by (simp add: blur_monotone_def)
    with True le show ?thesis by (simp add: threshold_binary_mono)
  next
    case False
    with fg le show ?thesis by (simp add: threshold_binary_mono)
  qed
  with m1 m2 show ?thesis by (simp add: foreground_mono)
qed

theorem foreground_antitone_in_threshold_witness:
  "blur_monotone opencv_ref \<and> (20::int) \<le> 100
   \<and> applyThreshold opencv_ref
        (after_black\<lparr>blur_on := True, difference_intensity_threshold := 20, this_image := ramp_frame\<rparr>)
       = Inr (after_ramp 20 ramp_mask_20)
   \<and> applyThreshold opencv_ref
        (after_black\<lparr>blur_on := True, difference_intensity_threshold := 100, this_image := ramp_frame\<rparr>)
       = Inr (after_ramp 100 ramp_mask_100)
   \<and> foreground ramp_mask_100 \<subseteq> foreground ramp_mask_20"
proof -
  have h1: "applyThreshold opencv_ref
        ((after_black\<lparr>blur_on := True\<rparr>)\<lparr>difference_intensity_threshold := 20, this_image := ramp_frame\<rparr>)
       = Inr (after_ramp 20 ramp_mask_20)" by code_simp
  have h2: "applyThreshold opencv_ref
        ((after_black\<lparr>blur_on := True\<rparr>)\<lparr>difference_intensity_threshold := 100, this_image := ramp_frame\<rparr>)
       = Inr (after_ramp 100 ramp_mask_100)" by code_simp
  have le: "(20::int) \<le> 100" by simp
  have m: "threshold_image (after_ramp 20 ramp_mask_20) = ramp_mask_20"
    "threshold_image (after_ramp 100 ramp_mask_100) = ramp_mask_100"
    by (simp_all add: after_ramp_def)
  show ?thesis
    using opencv_ref_blur_monotone h1 h2 m
      foreground_antitone_in_threshold [OF opencv_ref_blur_monotone le h1 h2]
    by simp
qed

section \<open>The run loop\<close>

text \<open>
  C9. \<open>run\<close> calls \<open>process\<close> again and again and returns at the first of its tests
  at which it reads the cancellation flag or the last call has reported the end of the
  stream; the flag is read at the tests only, between the calls. With \<open>n\<close> the number
  of that test, \<open>run\<close> returns after exactly \<open>n\<close> calls, with the state the \<open>n\<close>
  calls have produced. A source that reports the end of the stream on its fifth
  acquisition, with no cancellation, gives exactly five calls.
\<close>

theorem run_until_quit_or_eof:
  assumes "\<forall>i<n. loop_continues quit process s i"
    and "iterate_process process n s = Some (eof, sn)" and "quit n \<or> eof"
  shows "run quit process 0 False s = Some (Inr (n, sn))"
  using run_from [OF assms, of 0 False s] by simp

theorem run_until_quit_or_eof_witness:
  "loop_continues never_quit five_frames 0 0 \<and> loop_continues never_quit five_frames 0 1
   \<and> loop_continues never_quit five_frames 0 2 \<and> loop_continues never_quit five_frames 0 3
   \<and> loop_continues never_quit five_frames 0 4
   \<and> iterate_process five_frames 5 0 = Some (True, 5)
   \<and> (never_quit 5 \<or> True)
   \<and> run never_quit five_frames 0 False 0 = Some (Inr (5, 5))"
proof -
  have a: "\<forall>i<5. loop_continues never_quit five_frames 0 i"
  proof (intro allI impI)
    fix i :: nat assume "i < 5"
    then have "i = 0 \<or> i = 1 \<or> i = 2 \<or> i = 3 \<or> i = 4" by arith
    then show "loop_continues never_quit five_frames 0 i"
      by (auto simp: loop_continues_def never_quit_def five_frames_def numeral_eq_Suc)
  qed
  have b: "iterate_process five_frames 5 0 = Some (True, 5)"
    by (simp add: five_frames_def numeral_eq_Suc)
  have c: "never_quit 5 \<or> True" by simp
  have d: "loop_continues never_quit five_frames 0 0" "loop_continues never_quit five_frames 0 1"
    "loop_continues never_quit five_frames 0 2" "loop_continues never_quit five_frames 0 3"
    "loop_continues never_quit five_frames 0 4"
    using a by simp_all
  show ?thesis using d b run_until_quit_or_eof [OF a b c] by simp
qed

section \<open>The blur setting\<close>

text \<open>
  C10. A newly constructed detector has blur on with a 2 x 2 kernel. A configuration
  whose table has no \<open>blur\<close> entry leaves the blur setting as it was, whether
  \<open>configure\<close> returns or raises. \<open>set_blur_size\<close> turns blur on with a
  \<open>v\<close> x \<open>v\<close> kernel when \<open>v > 0\<close>, and for \<open>w \<le> 0\<close> turns it off and keeps
  the stored kernel size.
\<close>

theorem blur_default_and_set_blur_size:
  "blur_on (DifferenceDetector2D_new p t)
   \<and> blur_size (DifferenceDetector2D_new p t) = \<lparr>width = 2, height = 2\<rparr>
   \<and> (parse_file f = Inr config \<and> config k = Some c \<and> cfg_blur c = None
        \<longrightarrow> blur_on (state_at_end (configure parse_file f k s)) = blur_on s
          \<and> blur_size (state_at_end (configure parse_file f k s)) = blur_size s)
   \<and> (0 < v \<longrightarrow> blur_on (set_blur_size v s)
          \<and> blur_size (set_blur_size v s) = \<lparr>width = v, height = v\<rparr>)
   \<and> (w \<le> 0 \<longrightarrow> \<not> blur_on (set_blur_size w s)
          \<and> blur_size (set_blur_size w s) = blur_size s)"
  by (auto simp: DifferenceDetector2D_new_def set_blur_size_def configure_def Let_def
        createTuningWindows_def state_at_end_def split: option.splits bool.splits)

theorem blur_default_and_set_blur_size_witness:
  "config_without_blur ''oat.toml'' =
     Inr [''diff'' \<mapsto> \<lparr>cfg_blur = None, cfg_diff_threshold = Some 20, cfg_tune = None\<rparr>]
   \<and> blur_on (state_at_end (configure config_without_blur ''oat.toml'' ''diff''
                (DifferenceDetector2D_new pos0 0)))
   \<and> blur_size (state_at_end (configure config_without_blur ''oat.toml'' ''diff''
                (DifferenceDetector2D_new pos0 0))) = \<lparr>width = 2, height = 2\<rparr>
   \<and> (0::int) < 3
   \<and> blur_size (set_blur_size 3 (DifferenceDetector2D_new pos0 0)) = \<lparr>width = 3, height = 3\<rparr>
   \<and> (- 1::int) \<le> 0
   \<and> \<not> blur_on (set_blur_size (- 1) (DifferenceDetector2D_new pos0 0))
   \<and> blur_size (set_blur_size (- 1) (DifferenceDetector2D_new pos0 0)) = \<lparr>width = 2, height = 2\<rparr>"
  using blur_default_and_set_blur_size
          [of pos0 0 config_without_blur "''oat.toml''"
              "[''diff'' \<mapsto> \<lparr>cfg_blur = None, cfg_diff_threshold = Some 20, cfg_tune = None\<rparr>]"
              "''diff''" "\<lparr>cfg_blur = None, cfg_diff_threshold = Some 20, cfg_tune = None\<rparr>"
              "DifferenceDetector2D_new pos0 0" 3 "- 1"]
  by (simp add: config_without_blur_def)

end
